theory Spec2Isabelle
  imports Complex_Main
begin

section \<open>Data model of \<open>nexis_biometric_collector.py\<close>\<close>

text \<open>
  A Python \<open>datetime\<close> is read by the program in three ways only: \<open>.hour\<close>,
  \<open>.weekday()\<close> and its printed form. The record holds these three observations.
\<close>

record datetime =
  hour :: int
  weekday :: int
  shown :: string

text \<open>
  A \<open>Dict[str, ...]\<close> of metric values is an association list in insertion order, as
  \<open>.items()\<close> enumerates it. A metric value is a finite number that a Python float
  (IEEE double precision) holds exactly: a float, or an int of that kind such as an hour of
  the day. It is given as the real number it denotes.
\<close>

type_synonym metrics = "(string \<times> real) list"

record BiometricState =
  timestamp :: datetime
  physiological :: metrics
  cognitive :: metrics
  behavioral :: metrics
  environmental :: metrics

text \<open>\<open>d.get(key, default)\<close>\<close>

definition get :: "metrics \<Rightarrow> string \<Rightarrow> real \<Rightarrow> real" where
  "get d key dflt = (case map_of d key of None \<Rightarrow> dflt | Some v \<Rightarrow> v)"

section \<open>Floating-point arithmetic\<close>

text \<open>
  An entry of a NumPy array of floats: a finite number or an infinity. The two zeros of
  IEEE arithmetic compare equal and are one value here; no operation of the program
  produces a NaN from finite numbers.
\<close>

datatype np_float = Finite real | PosInf | NegInf

instantiation np_float :: zero
begin

definition zero_np_float :: np_float where
  "zero_np_float = Finite 0"

instance ..

end

definition pow2 :: "int \<Rightarrow> real" where
  "pow2 e = (if 0 \<le> e then 2 ^ nat e else 1 / 2 ^ nat (- e))"

text \<open>The integer nearest to \<open>y\<close>, the even one of the two when \<open>y\<close> lies halfway.\<close>

definition round_half_even :: "real \<Rightarrow> int" where
  "round_half_even y =
     (let f = \<lfloor>y\<rfloor>; d = y - of_int f
      in if d < 1 / 2 then f else if 1 / 2 < d then f + 1 else if even f then f else f + 1)"

text \<open>
  The binary exponent of \<open>a \<ge> 0\<close>, kept between \<open>emin\<close> and \<open>emax\<close>: the \<open>e\<close> with
  \<open>2\<^sup>e \<le> a < 2\<^sup>e\<^sup>+\<^sup>1\<close> when there is one in that range, searched upwards from 0 or
  downwards from -1.
\<close>

fun ascend :: "nat \<Rightarrow> int \<Rightarrow> real \<Rightarrow> int" where
  "ascend 0 e a = e"
| "ascend (Suc n) e a = (if a < pow2 (e + 1) then e else ascend n (e + 1) a)"

fun descend :: "nat \<Rightarrow> int \<Rightarrow> real \<Rightarrow> int" where
  "descend 0 e a = e"
| "descend (Suc n) e a = (if pow2 e \<le> a then e else descend n (e - 1) a)"

definition exponent :: "int \<Rightarrow> int \<Rightarrow> real \<Rightarrow> int" where
  "exponent emin emax a =
     (if 1 \<le> a then ascend (nat emax) 0 a else descend (nat (- 1 - emin)) (- 1) a)"

text \<open>
  Rounding to nearest, ties to even, to a significand of \<open>p\<close> bits: the spacing of the
  format at \<open>x\<close> is \<open>2\<^sup>q\<close>, constant below \<open>2\<^sup>e\<^sup>m\<^sup>i\<^sup>n\<close> (subnormal numbers).
\<close>

definition round_fp :: "nat \<Rightarrow> int \<Rightarrow> int \<Rightarrow> real \<Rightarrow> real" where
  "round_fp p emin emax x =
     (let q = exponent emin emax \<bar>x\<bar> - (int p - 1)
      in of_int (round_half_even (x / pow2 q)) * pow2 q)"

text \<open>
  The result of a double-precision operation whose exact result is \<open>x\<close>, and the value of
  a decimal literal \<open>x\<close>. It is used below the overflow threshold \<open>2\<^sup>1\<^sup>0\<^sup>2\<^sup>4\<close> only: the
  quotient of a double by \<open>24.0\<close> or \<open>7.0\<close> and the sum of a double and a small constant
  stay below it.
\<close>

definition float64 :: "real \<Rightarrow> real" where
  "float64 x = round_fp 53 (- 1022) 1023 x"

text \<open>The conversion of a double to single precision; it overflows to an infinity.\<close>

definition to_float32 :: "real \<Rightarrow> np_float" where
  "to_float32 x =
     (let y = round_fp 24 (- 126) 127 x
      in if 2 ^ 128 \<le> y then PosInf else if y \<le> - (2 ^ 128) then NegInf else Finite y)"

section \<open>The feature encoder \<open>create_cognitive_embeddings\<close>\<close>

definition phys_features :: "BiometricState \<Rightarrow> real list" where
  "phys_features state =
     [get (physiological state) ''heart_rate'' 0,
      get (physiological state) ''hrv_rmssd'' 0,
      get (physiological state) ''gsr'' 0,
      get (physiological state) ''temperature'' 0,
      get (physiological state) ''respiratory_rate'' 0]"

definition cog_features :: "BiometricState \<Rightarrow> real list" where
  "cog_features state =
     [get (cognitive state) ''attention_level'' 0,
      get (cognitive state) ''cognitive_load'' 0,
      get (cognitive state) ''focus_stability'' 0,
      get (cognitive state) ''executive_function'' 0]"

definition behav_features :: "BiometricState \<Rightarrow> real list" where
  "behav_features state =
     [get (behavioral state) ''typing_rhythm'' 0,
      get (behavioral state) ''stress_indicators'' 0]"

definition env_features :: "BiometricState \<Rightarrow> real list" where
  "env_features state =
     [float64 (get (environmental state) ''time_of_day'' 0 / 24),
      float64 (get (environmental state) ''day_of_week'' 0 / 7),
      get (environmental state) ''ambient_light'' 0,
      get (environmental state) ''noise_level'' 0]"

text \<open>\<open>phys_features + cog_features + behav_features + env_features\<close>\<close>

definition reading_features :: "BiometricState \<Rightarrow> real list" where
  "reading_features state =
     phys_features state @ cog_features state @ behav_features state @ env_features state"

text \<open>The \<open>for state in telemetry_window\<close> loop, one \<open>features.extend(...)\<close> per pass.\<close>

fun extend_features :: "real list \<Rightarrow> BiometricState list \<Rightarrow> real list" where
  "extend_features features [] = features"
| "extend_features features (state # rest) =
     extend_features (features @ reading_features state) rest"

text \<open>
  \<open>np.array(features, dtype=np.float32)\<close>: every entry is converted to single precision;
  length and order stay.
\<close>

definition np_array_float32 :: "real list \<Rightarrow> np_float list" where
  "np_array_float32 features = map to_float32 features"

text \<open>The early return is \<open>np.zeros(768)\<close>; the padding appends the float \<open>0.0\<close>.\<close>

definition create_cognitive_embeddings :: "BiometricState list \<Rightarrow> np_float list" where
  "create_cognitive_embeddings telemetry_window =
     (if telemetry_window = [] then replicate 768 0
      else
        let features = extend_features [] telemetry_window;
            features = take 768 features
        in np_array_float32
             (if length features < 768
              then features @ replicate (768 - length features) 0
              else features))"

section \<open>The collector object and its effects\<close>

text \<open>
  \<open>telemetry_streams\<close> is a dict of dicts of lists; each list holds the stored
  \<open>{'timestamp': ..., 'value': ...}\<close> items, here pairs.
\<close>

type_synonym stream_table = "string \<rightharpoonup> (string \<rightharpoonup> (datetime \<times> real) list)"

text \<open>
  The exceptions the modelled code can raise. \<open>KeyError\<close> and \<open>ZeroDivisionError\<close>
  derive from \<open>Exception\<close>. \<open>KeyboardInterrupt\<close> is the interruption from outside, which
  reaches the coroutine at a suspension point and derives from \<open>BaseException\<close> only.
\<close>

datatype exn = KeyError string | ZeroDivisionError | KeyboardInterrupt

fun is_Exception :: "exn \<Rightarrow> bool" where
  "is_Exception (KeyError k) = True"
| "is_Exception ZeroDivisionError = True"
| "is_Exception KeyboardInterrupt = False"

text \<open>\<open>str(e)\<close>, as the f-string of the handler formats the exception.\<close>

fun exn_str :: "exn \<Rightarrow> string" where
  "exn_str (KeyError k) = [CHR 0x27] @ k @ [CHR 0x27]"
| "exn_str ZeroDivisionError = ''float division by zero''"
| "exn_str KeyboardInterrupt = []"

text \<open>
  What the program does to the outside, in order: a line printed to standard output, a
  completed \<open>asyncio.sleep\<close> with its argument, and an entry into the persistence stub
  \<open>_store_training_data\<close> with its two arguments.
\<close>

datatype event =
    Print string
  | Sleep real
  | Store_call BiometricState "np_float list"

record collector =
  telemetry_streams :: stream_table
  collection_active :: bool
  sample_rate :: real
  trace :: "event list"

text \<open>\<open>NexisBiometricCollector.__init__\<close>\<close>

definition init :: collector where
  "init =
     \<lparr>telemetry_streams = map_of
        [(''physiological'', map_of
            [(''heart_rate_variability'', []),
             (''galvanic_skin_response'', []),
             (''eye_tracking_patterns'', []),
             (''brain_wave_states'', []),
             (''respiratory_patterns'', []),
             (''temperature_fluctuations'', [])]),
         (''cognitive_state'', map_of
            [(''attention_vectors'', []),
             (''context_switch_patterns'', []),
             (''decision_hesitation_markers'', []),
             (''cognitive_load_indicators'', []),
             (''hyperfocus_episodes'', []),
             (''executive_function_states'', [])]),
         (''behavioral_patterns'', map_of
            [(''typing_dynamics'', []),
             (''code_writing_patterns'', []),
             (''problem_solving_sequences'', []),
             (''communication_styles'', []),
             (''stress_response_patterns'', []),
             (''creativity_bursts'', [])]),
         (''environmental_context'', map_of
            [(''time_of_day_performance'', []),
             (''ambient_conditions'', []),
             (''social_interaction_modes'', []),
             (''task_type_preferences'', [])])],
      collection_active = False,
      sample_rate = 1,
      trace = []\<rparr>"

section \<open>The sampler \<open>collect_current_state\<close>\<close>

text \<open>
  The values drawn from \<open>np.random\<close> during one call, in call order. They are inputs of
  the model and are not restricted to the ranges of their distributions. The clock value
  \<open>datetime.now()\<close> is an input as well.
\<close>

record draws =
  heart_rate_noise :: real
  hrv_noise :: real
  gsr_draw :: real
  temperature_noise :: real
  respiratory_noise :: real
  attention_draw :: real
  cognitive_load_draw :: real
  focus_stability_draw :: real
  executive_function_draw :: real
  typing_draw :: real
  mouse_draw :: real
  task_switch_draw :: int
  stress_draw :: real
  ambient_light_draw :: real
  noise_level_draw :: real

text \<open>
  The simulation methods, each reading its own draw. A sum of two floats is the
  double-precision sum.
\<close>

definition simulate_heart_rate :: "draws \<Rightarrow> real" where
  "simulate_heart_rate r = float64 (70 + heart_rate_noise r)"

definition simulate_hrv :: "draws \<Rightarrow> real" where
  "simulate_hrv r = float64 (50 + hrv_noise r)"

definition simulate_gsr :: "draws \<Rightarrow> real" where
  "simulate_gsr r = gsr_draw r"

definition simulate_temperature :: "draws \<Rightarrow> real" where
  "simulate_temperature r = float64 (float64 98.6 + temperature_noise r)"

definition simulate_respiratory_rate :: "draws \<Rightarrow> real" where
  "simulate_respiratory_rate r = float64 (16 + respiratory_noise r)"

definition estimate_attention :: "draws \<Rightarrow> real" where
  "estimate_attention r = attention_draw r"

definition estimate_cognitive_load :: "draws \<Rightarrow> real" where
  "estimate_cognitive_load r = cognitive_load_draw r"

definition estimate_focus_stability :: "draws \<Rightarrow> real" where
  "estimate_focus_stability r = focus_stability_draw r"

definition estimate_executive_function :: "draws \<Rightarrow> real" where
  "estimate_executive_function r = executive_function_draw r"

definition analyze_typing_patterns :: "draws \<Rightarrow> real" where
  "analyze_typing_patterns r = typing_draw r"

definition analyze_mouse_patterns :: "draws \<Rightarrow> real" where
  "analyze_mouse_patterns r = mouse_draw r"

definition detect_task_switches :: "draws \<Rightarrow> int" where
  "detect_task_switches r = task_switch_draw r"

definition detect_stress_markers :: "draws \<Rightarrow> real" where
  "detect_stress_markers r = stress_draw r"

definition measure_ambient_light :: "draws \<Rightarrow> real" where
  "measure_ambient_light r = ambient_light_draw r"

definition measure_noise_level :: "draws \<Rightarrow> real" where
  "measure_noise_level r = noise_level_draw r"

definition collect_current_state :: "datetime \<Rightarrow> draws \<Rightarrow> BiometricState" where
  "collect_current_state now r =
     \<lparr>timestamp = now,
      physiological =
        [(''heart_rate'', simulate_heart_rate r),
         (''hrv_rmssd'', simulate_hrv r),
         (''gsr'', simulate_gsr r),
         (''temperature'', simulate_temperature r),
         (''respiratory_rate'', simulate_respiratory_rate r)],
      cognitive =
        [(''attention_level'', estimate_attention r),
         (''cognitive_load'', estimate_cognitive_load r),
         (''focus_stability'', estimate_focus_stability r),
         (''executive_function'', estimate_executive_function r)],
      behavioral =
        [(''typing_rhythm'', analyze_typing_patterns r),
         (''mouse_dynamics'', analyze_mouse_patterns r),
         (''task_switching'', of_int (detect_task_switches r)),
         (''stress_indicators'', detect_stress_markers r)],
      environmental =
        [(''time_of_day'', of_int (hour now)),
         (''day_of_week'', of_int (weekday now)),
         (''ambient_light'', measure_ambient_light r),
         (''noise_level'', measure_noise_level r)]\<rparr>"

section \<open>The aggregator and the sink: \<open>process_and_store\<close>\<close>

text \<open>
  The inner loop \<open>for key, value in data.items()\<close>. Each pass subscripts
  \<open>self.telemetry_streams[category]\<close>, which raises \<open>KeyError\<close> when the category is
  absent; what earlier passes appended stays in the collector.
\<close>

fun store_items ::
  "string \<Rightarrow> datetime \<Rightarrow> metrics \<Rightarrow> collector \<Rightarrow> exn option \<times> collector" where
  "store_items category ts [] self = (None, self)"
| "store_items category ts ((key, v) # rest) self =
     (case telemetry_streams self category of
        None \<Rightarrow> (Some (KeyError category), self)
      | Some m \<Rightarrow>
          (case m key of
             None \<Rightarrow> store_items category ts rest self
           | Some xs \<Rightarrow>
               store_items category ts rest
                 (self\<lparr>telemetry_streams :=
                    (telemetry_streams self)(category \<mapsto> m(key \<mapsto> xs @ [(ts, v)]))\<rparr>)))"

text \<open>The outer loop over the four \<open>(category, data)\<close> pairs.\<close>

fun store_categories ::
  "(string \<times> metrics) list \<Rightarrow> datetime \<Rightarrow> collector \<Rightarrow> exn option \<times> collector" where
  "store_categories [] ts self = (None, self)"
| "store_categories ((category, data) # rest) ts self =
     (case store_items category ts data self of
        (Some e, self') \<Rightarrow> (Some e, self')
      | (None, self') \<Rightarrow> store_categories rest ts self')"

definition category_data :: "BiometricState \<Rightarrow> (string \<times> metrics) list" where
  "category_data state =
     [(''physiological'', physiological state),
      (''cognitive_state'', cognitive state),
      (''behavioral_patterns'', behavioral state),
      (''environmental_context'', environmental state)]"

definition get_recent_states :: "collector \<Rightarrow> int \<Rightarrow> BiometricState list" where
  "get_recent_states self window_minutes = []"

definition store_training_data ::
  "BiometricState \<Rightarrow> np_float list \<Rightarrow> collector \<Rightarrow> exn option \<times> collector" where
  "store_training_data state embeddings self =
     (None, self\<lparr>trace := trace self @
        [Store_call state embeddings,
         Print (''Stored training record at '' @ shown (timestamp state))]\<rparr>)"

definition process_and_store :: "BiometricState \<Rightarrow> collector \<Rightarrow> exn option \<times> collector" where
  "process_and_store state self =
     (case store_categories (category_data state) (timestamp state) self of
        (Some e, self') \<Rightarrow> (Some e, self')
      | (None, self') \<Rightarrow>
          let recent_states = get_recent_states self' 5;
              embeddings = create_cognitive_embeddings recent_states
          in store_training_data state embeddings self')"

section \<open>The collection loop\<close>

definition stop_collection :: "collector \<Rightarrow> collector" where
  "stop_collection self =
     self\<lparr>collection_active := False,
          trace := trace self @ [Print ''Stopped biometric collection'']\<rparr>"

text \<open>
  \<open>asyncio.sleep\<close> is the only point where the coroutine is suspended, so it is the only
  point where another task can run \<open>stop_collection\<close> and where an interruption can be
  delivered. The signal says which of these happens while the coroutine sleeps.
\<close>

datatype signal = Quiet | Stop_called | Interrupt

definition asyncio_sleep :: "real \<Rightarrow> signal \<Rightarrow> collector \<Rightarrow> exn option \<times> collector" where
  "asyncio_sleep delay sg self =
     (let self' = self\<lparr>trace := trace self @ [Sleep delay]\<rparr>
      in case sg of
           Quiet \<Rightarrow> (None, self')
         | Stop_called \<Rightarrow> (None, stop_collection self')
         | Interrupt \<Rightarrow> (Some KeyboardInterrupt, self'))"

text \<open>The inputs of one pass of the loop: the clock, the random draws, the signal.\<close>

record tick =
  now :: datetime
  rnd :: draws
  during_sleep :: signal

text \<open>The \<open>try\<close> block; \<open>1.0 / self.sample_rate\<close> raises when the rate is zero.\<close>

definition try_block :: "tick \<Rightarrow> collector \<Rightarrow> exn option \<times> collector" where
  "try_block t self =
     (let state = collect_current_state (now t) (rnd t)
      in case process_and_store state self of
           (Some e, self') \<Rightarrow> (Some e, self')
         | (None, self') \<Rightarrow>
             if sample_rate self' = 0 then (Some ZeroDivisionError, self')
             else asyncio_sleep (1 / sample_rate self') (during_sleep t) self')"

text \<open>The \<open>try\<close> statement with its \<open>except Exception as e\<close> clause.\<close>

definition iteration :: "tick \<Rightarrow> collector \<Rightarrow> exn option \<times> collector" where
  "iteration t self =
     (case try_block t self of
        (None, self') \<Rightarrow> (None, self')
      | (Some e, self') \<Rightarrow>
          if is_Exception e
          then asyncio_sleep 1 (during_sleep t)
                 (self'\<lparr>trace := trace self' @ [Print (''Collection error: '' @ exn_str e)]\<rparr>)
          else (Some e, self'))"

text \<open>
  How a run over finitely many ticks ends: the \<open>while\<close> test found the flag cleared, an
  exception left the coroutine, or the ticks are used up with the loop still running.
\<close>

datatype outcome = Stopped | Aborted exn | Pending

fun collection_loop :: "tick list \<Rightarrow> collector \<Rightarrow> outcome \<times> collector" where
  "collection_loop [] self =
     (if collection_active self then (Pending, self) else (Stopped, self))"
| "collection_loop (t # rest) self =
     (if collection_active self
      then (case iteration t self of
              (None, self') \<Rightarrow> collection_loop rest self'
            | (Some e, self') \<Rightarrow> (Aborted e, self'))
      else (Stopped, self))"

definition start_continuous_collection :: "tick list \<Rightarrow> collector \<Rightarrow> outcome \<times> collector" where
  "start_continuous_collection ticks self =
     collection_loop ticks
       (self\<lparr>collection_active := True,
             trace := trace self @
               [Print ''Starting continuous biometric collection for Nexis LLM training...'']\<rparr>)"

section \<open>The aggregator's effect on the table, in closed form\<close>

text \<open>
  What the inner loop does to the table of one category, and the outer loop to the whole
  table, when no \<open>KeyError\<close> is raised. These functions are not in the source; the
  lemmas below relate the source's loops to them.
\<close>

type_synonym category_table = "string \<rightharpoonup> (datetime \<times> real) list"

fun add_items :: "category_table \<Rightarrow> datetime \<Rightarrow> metrics \<Rightarrow> category_table" where
  "add_items m ts [] = m"
| "add_items m ts ((key, v) # rest) =
     add_items (case m key of None \<Rightarrow> m | Some xs \<Rightarrow> m(key \<mapsto> xs @ [(ts, v)])) ts rest"

fun add_categories :: "stream_table \<Rightarrow> datetime \<Rightarrow> (string \<times> metrics) list \<Rightarrow> stream_table" where
  "add_categories tbl ts [] = tbl"
| "add_categories tbl ts ((category, data) # rest) =
     add_categories
       (case tbl category of None \<Rightarrow> tbl | Some m \<Rightarrow> tbl(category \<mapsto> add_items m ts data))
       ts rest"

section \<open>Collectors that declare the metric names of \<open>__init__\<close>\<close>

text \<open>
  The collector has the categories of the initial collector, and in each category the
  metric names of the initial collector; the stored sequences are arbitrary.
\<close>

definition declared_as_init :: "collector \<Rightarrow> bool" where
  "declared_as_init self =
     (\<forall>c. map_option dom (telemetry_streams self c) = map_option dom (telemetry_streams init c))"

section \<open>A sample reading\<close>

text \<open>
  The one-reading window of the specification's example, with the unspecified metric
  values filled in: noon on a Thursday. The literal \<open>0.2\<close> is the double nearest to it;
  all other values are doubles as they stand.
\<close>

definition example_reading :: BiometricState where
  "example_reading =
     \<lparr>timestamp = \<lparr>hour = 12, weekday = 3, shown = ''2024-01-04 12:00:00''\<rparr>,
      physiological =
        [(''heart_rate'', 70), (''hrv_rmssd'', 50), (''gsr'', 1),
         (''temperature'', 98.5), (''respiratory_rate'', 16)],
      cognitive =
        [(''attention_level'', 0.75), (''cognitive_load'', 0.5),
         (''focus_stability'', 0.25), (''executive_function'', 0.625)],
      behavioral =
        [(''typing_rhythm'', 0.375), (''mouse_dynamics'', 0.875),
         (''task_switching'', 2), (''stress_indicators'', 0.125)],
      environmental =
        [(''time_of_day'', 12), (''day_of_week'', 3),
         (''ambient_light'', 0.5), (''noise_level'', float64 0.2)]\<rparr>"


text \<open>A clock value, a set of random draws and a tick for concrete runs.\<close>

definition example_clock :: datetime where
  "example_clock = \<lparr>hour = 12, weekday = 3, shown = ''2024-01-04 12:00:00''\<rparr>"

definition example_draws :: draws where
  "example_draws =
     \<lparr>heart_rate_noise = 1.5, hrv_noise = -2, gsr_draw = 0.875, temperature_noise = 0.125,
      respiratory_noise = -1, attention_draw = 0.75, cognitive_load_draw = 0.25,
      focus_stability_draw = 0.625, executive_function_draw = 0.5, typing_draw = 0.5,
      mouse_draw = 0.375, task_switch_draw = 2, stress_draw = 0.125,
      ambient_light_draw = 0.5, noise_level_draw = 0.25\<rparr>"

definition quiet_tick :: tick where
  "quiet_tick = \<lparr>now = example_clock, rnd = example_draws, during_sleep = Quiet\<rparr>"

text \<open>
  Ticks during whose sleep \<open>stop_collection\<close> is called or an interruption arrives, a
  collector whose log has lost its categories, and the initial collector with the flag set.
\<close>

definition stop_tick :: tick where
  "stop_tick = quiet_tick\<lparr>during_sleep := Stop_called\<rparr>"

definition interrupt_tick :: tick where
  "interrupt_tick = quiet_tick\<lparr>during_sleep := Interrupt\<rparr>"

definition uncategorised_collector :: collector where
  "uncategorised_collector = init\<lparr>telemetry_streams := Map.empty, collection_active := True\<rparr>"

definition running_collector :: collector where
  "running_collector = init\<lparr>collection_active := True\<rparr>"

section \<open>Properties of the floating-point operations\<close>

lemma ascend_unfold:
  "0 < n \<Longrightarrow> ascend n e a = (if a < pow2 (e + 1) then e else ascend (n - 1) (e + 1) a)"
  by (cases n) simp_all

lemma descend_unfold:
  "0 < n \<Longrightarrow> descend n e a = (if pow2 e \<le> a then e else descend (n - 1) (e - 1) a)"
  by (cases n) simp_all

lemmas fp_eval = to_float32_def float64_def round_fp_def exponent_def pow2_def
  round_half_even_def Let_def ascend_unfold descend_unfold

lemma round_half_even_zero: "round_half_even 0 = 0"
  by (simp add: round_half_even_def)

lemma round_half_even_nonneg: "0 \<le> y \<Longrightarrow> 0 \<le> round_half_even y"
  by (simp add: round_half_even_def Let_def)

lemma round_half_even_le_int:
  assumes "y \<le> of_int N"
  shows "round_half_even y \<le> N"
proof (cases "\<lfloor>y\<rfloor> = N")
  case True
  with assms have "y = of_int N"
    by (metis of_int_floor_le order_antisym)
  then show ?thesis by (simp add: round_half_even_def)
next
  case False
  from assms have "\<lfloor>y\<rfloor> \<le> N" by (simp add: floor_le_iff)
  with False have "\<lfloor>y\<rfloor> + 1 \<le> N" by simp
  then show ?thesis by (simp add: round_half_even_def Let_def)
qed

lemma pow2_pos: "0 < pow2 e"
  by (simp add: pow2_def)

lemma pow2_nonpos: "e \<le> 0 \<Longrightarrow> pow2 e * of_int (2 ^ nat (- e)) = 1"
  by (cases "e = 0") (simp_all add: pow2_def)

lemma descend_le: "descend n e a \<le> e"
  by (induction n e a rule: descend.induct) auto

lemma exponent_le_zero: "a \<le> 1 \<Longrightarrow> exponent emin emax a \<le> 0"
proof (cases "1 \<le> a")
  case True
  assume "a \<le> 1"
  with True have "a = 1" by simp
  then show ?thesis
    by (cases "nat emax") (simp_all add: exponent_def pow2_def)
next
  case False
  have "descend (nat (- 1 - emin)) (- 1) a \<le> - 1" by (rule descend_le)
  with False show ?thesis by (simp add: exponent_def)
qed

lemma round_fp_zero: "round_fp p emin emax 0 = 0"
  by (simp add: round_fp_def round_half_even_zero)

text \<open>Rounding keeps a number of the unit interval in the unit interval.\<close>

lemma round_fp_unit:
  assumes "0 \<le> x" and "x \<le> 1" and "0 < p"
  shows "0 \<le> round_fp p emin emax x \<and> round_fp p emin emax x \<le> 1"
proof -
  define q where "q = exponent emin emax \<bar>x\<bar> - (int p - 1)"
  let ?N = "2 ^ nat (- q) :: int"
  from assms have "exponent emin emax \<bar>x\<bar> \<le> 0"
    by (intro exponent_le_zero) simp
  with assms(3) have q: "q \<le> 0" by (simp add: q_def)
  have one: "pow2 q * of_int ?N = 1" by (rule pow2_nonpos [OF q])
  have pos: "0 < pow2 q" by (rule pow2_pos)
  have r: "round_fp p emin emax x = of_int (round_half_even (x / pow2 q)) * pow2 q"
    by (simp add: round_fp_def q_def Let_def)
  have inv: "1 / pow2 q = of_int ?N"
    using one pos by (simp add: field_simps)
  have "0 \<le> x / pow2 q" using assms(1) pos by simp
  then have lo: "0 \<le> round_half_even (x / pow2 q)" by (rule round_half_even_nonneg)
  have "x / pow2 q \<le> 1 / pow2 q" using assms(2) pos by (simp add: divide_right_mono)
  then have "x / pow2 q \<le> of_int ?N" unfolding inv .
  then have hi: "round_half_even (x / pow2 q) \<le> ?N" by (rule round_half_even_le_int)
  from lo pos have a: "0 \<le> round_fp p emin emax x" unfolding r by simp
  from hi have "(of_int (round_half_even (x / pow2 q)) :: real) \<le> of_int ?N"
    by (simp only: of_int_le_iff)
  with pos have "of_int (round_half_even (x / pow2 q)) * pow2 q \<le> of_int ?N * pow2 q"
    by (simp add: mult_right_mono)
  also have "\<dots> = 1" using one by (simp add: mult.commute)
  finally have b: "round_fp p emin emax x \<le> 1" unfolding r .
  from a b show ?thesis ..
qed

lemma float64_unit: "0 \<le> x \<Longrightarrow> x \<le> 1 \<Longrightarrow> 0 \<le> float64 x \<and> float64 x \<le> 1"
  unfolding float64_def by (rule round_fp_unit) simp_all

lemma to_float32_unit:
  assumes "0 \<le> x" and "x \<le> 1"
  shows "\<exists>v. to_float32 x = Finite v \<and> 0 \<le> v \<and> v \<le> 1"
proof -
  have b: "0 \<le> round_fp 24 (- 126) 127 x \<and> round_fp 24 (- 126) 127 x \<le> 1"
    using assms by (intro round_fp_unit) simp_all
  have big: "(1::real) < 2 ^ 128" by simp
  from b big have "to_float32 x = Finite (round_fp 24 (- 126) 127 x)"
    by (simp add: to_float32_def Let_def)
  with b show ?thesis by blast
qed

lemma to_float32_zero: "to_float32 0 = 0"
  by (simp add: to_float32_def round_fp_zero zero_np_float_def)

text \<open>
  The roundings that occur in the sample reading: of \<open>3/7\<close>, of \<open>0.2\<close>, of
  \<open>12/24\<close> and \<open>0.5\<close>, and of 70.
\<close>

lemma float64_three_sevenths: "float64 (3 / 7) = 7720456504063707 / 18014398509481984"
  by (simp add: fp_eval)

lemma float32_three_sevenths: "to_float32 (float64 (3 / 7)) = Finite (14380471 / 33554432)"
  by (simp add: fp_eval)

lemma float64_fifth: "float64 (1 / 5) = 3602879701896397 / 18014398509481984"
  by (simp add: fp_eval)

lemma float32_fifth: "to_float32 (float64 (1 / 5)) = Finite (13421773 / 67108864)"
  by (simp add: fp_eval)

lemma float32_noon: "to_float32 (float64 (1 / 2)) = Finite (1 / 2)"
  by (simp add: fp_eval)

lemma float32_half: "to_float32 (1 / 2) = Finite (1 / 2)"
  by (simp add: fp_eval)

lemma float32_seventy: "to_float32 70 = Finite 70"
  by (simp add: fp_eval)

section \<open>Properties of the encoder\<close>

lemma extend_features_concat:
  "extend_features fs w = fs @ concat (map reading_features w)"
  by (induction w arbitrary: fs) simp_all

lemma length_reading_features: "length (reading_features s) = 15"
  by (simp add: reading_features_def phys_features_def cog_features_def
      behav_features_def env_features_def)

lemma length_raw: "length (concat (map reading_features w)) = 15 * length w"
  by (induction w) (simp_all add: length_reading_features)

lemma encoder_closed_form:
  "w \<noteq> [] \<Longrightarrow> create_cognitive_embeddings w =
     map to_float32 (take 768 (concat (map reading_features w)))
       @ replicate (768 - length (concat (map reading_features w))) 0"
  by (simp add: create_cognitive_embeddings_def np_array_float32_def Let_def
      extend_features_concat min_def to_float32_zero)

lemma nth_concat_blocks:
  "j < length w \<Longrightarrow> k < 15 \<Longrightarrow>
     concat (map reading_features w) ! (15 * j + k) = reading_features (w ! j) ! k"
proof (induction w arbitrary: j)
  case Nil
  then show ?case by simp
next
  case (Cons s w)
  show ?case
  proof (cases j)
    case 0
    with Cons.prems show ?thesis
      by (simp add: nth_append length_reading_features)
  next
    case (Suc j')
    with Cons.prems have "j' < length w" by simp
    from Cons.IH[OF this \<open>k < 15\<close>] Suc show ?thesis
      by (simp add: nth_append length_reading_features)
  qed
qed

lemma encoder_nth:
  assumes "j < length w" "k < 15" "15 * j + k < 768"
  shows "create_cognitive_embeddings w ! (15 * j + k)
           = to_float32 (reading_features (w ! j) ! k)"
proof -
  from assms have ne: "w \<noteq> []" by auto
  have "15 * j + k < length (concat (map reading_features w))"
    using assms by (simp add: length_raw)
  then show ?thesis
    using assms by (simp add: encoder_closed_form[OF ne] nth_append nth_concat_blocks)
qed

lemma example_entry_12:
  "create_cognitive_embeddings [example_reading] ! 12 = Finite (14380471 / 33554432)"
proof -
  have "reading_features example_reading ! 12 = float64 (3 / 7)"
    by (simp add: reading_features_def phys_features_def cog_features_def
        behav_features_def env_features_def get_def example_reading_def)
  with encoder_nth [of 0 "[example_reading]" 12] show ?thesis
    by (simp add: float32_three_sevenths)
qed

lemma example_entry_14:
  "create_cognitive_embeddings [example_reading] ! 14 = Finite (13421773 / 67108864)"
proof -
  have "reading_features example_reading ! 14 = float64 0.2"
    by (simp add: reading_features_def phys_features_def cog_features_def
        behav_features_def env_features_def get_def example_reading_def)
  with encoder_nth [of 0 "[example_reading]" 14] show ?thesis
    by (simp add: float32_fifth)
qed

text \<open>
  Claim C1 as stated, that the encoder returns the raw feature values themselves, fails
  for the one-reading window of the sample reading: its raw value 12 is the double
  \<open>3 / 7.0\<close>, and the vector holds the single-precision rounding of it.
\<close>

theorem encoder_returns_raw_values_counterexample:
  "[example_reading] \<noteq> []
   \<and> length (concat (map reading_features [example_reading])) < 768
   \<and> concat (map reading_features [example_reading]) ! 12
       = 7720456504063707 / 18014398509481984
   \<and> create_cognitive_embeddings [example_reading] ! 12 = Finite (14380471 / 33554432)
   \<and> create_cognitive_embeddings [example_reading]
       \<noteq> map Finite (concat (map reading_features [example_reading]))
           @ replicate (768 - length (concat (map reading_features [example_reading]))) 0"
proof -
  let ?raw = "concat (map reading_features [example_reading])"
  have len: "length ?raw = 15"
    unfolding length_raw by simp
  have raw12: "?raw ! 12 = 7720456504063707 / 18014398509481984"
    by (simp add: reading_features_def phys_features_def cog_features_def
        behav_features_def env_features_def get_def example_reading_def
        float64_three_sevenths)
  have "(map Finite ?raw @ replicate (768 - length ?raw) 0) ! 12 = Finite (?raw ! 12)"
    using len by (simp add: nth_append)
  then have "(map Finite ?raw @ replicate (768 - length ?raw) 0) ! 12
      \<noteq> create_cognitive_embeddings [example_reading] ! 12"
    unfolding raw12 example_entry_12 by simp
  then have ne: "create_cognitive_embeddings [example_reading]
      \<noteq> map Finite ?raw @ replicate (768 - length ?raw) 0"
    by auto
  from len have small: "length ?raw < 768" by simp
  from small raw12 example_entry_12 ne show ?thesis by blast
qed

text \<open>
  Claim C1, amended. For a non-empty window the encoder returns the single-precision
  roundings of the per-reading feature values concatenated in window order: of the first
  768 of them when there are more than 768, and of all of them followed by exact zeros up
  to position 768 when there are fewer. Nothing is reordered.
\<close>

theorem encoder_truncates_or_pads:
  assumes "w \<noteq> []"
  shows "(768 < length (concat (map reading_features w)) \<longrightarrow>
            create_cognitive_embeddings w
              = map to_float32 (take 768 (concat (map reading_features w))))
       \<and> (length (concat (map reading_features w)) < 768 \<longrightarrow>
            create_cognitive_embeddings w =
              map to_float32 (concat (map reading_features w))
                @ replicate (768 - length (concat (map reading_features w))) 0)"
  using assms by (simp add: encoder_closed_form)

theorem encoder_truncates_or_pads_witness:
  "[example_reading] \<noteq> []
   \<and> length (concat (map reading_features [example_reading])) < 768
   \<and> create_cognitive_embeddings [example_reading] =
       map to_float32 (concat (map reading_features [example_reading])) @ replicate 753 0
   \<and> replicate 52 example_reading \<noteq> []
   \<and> 768 < length (concat (map reading_features (replicate 52 example_reading)))
   \<and> create_cognitive_embeddings (replicate 52 example_reading) =
       map to_float32 (take 768 (concat (map reading_features (replicate 52 example_reading))))"
proof -
  have few: "length (concat (map reading_features [example_reading])) = 15"
    unfolding length_raw by simp
  have many: "length (concat (map reading_features (replicate 52 example_reading))) = 780"
    unfolding length_raw by simp
  have pad: "create_cognitive_embeddings [example_reading] =
      map to_float32 (concat (map reading_features [example_reading])) @ replicate 753 0"
    using encoder_truncates_or_pads [of "[example_reading]"] unfolding few by simp
  have ne: "replicate 52 example_reading \<noteq> []"
    by simp
  have cut: "create_cognitive_embeddings (replicate 52 example_reading) =
      map to_float32 (take 768 (concat (map reading_features (replicate 52 example_reading))))"
    using encoder_truncates_or_pads [OF ne] unfolding many by simp
  show ?thesis
    unfolding few many using pad cut ne by simp
qed

text \<open>
  Claim C2. For the empty window the encoder returns a vector of length 768 all of whose
  entries are zero.
\<close>

theorem encoder_empty_window:
  "create_cognitive_embeddings [] = replicate 768 0
   \<and> length (create_cognitive_embeddings []) = 768
   \<and> set (create_cognitive_embeddings []) = {0}"
  by (simp add: create_cognitive_embeddings_def)

text \<open>
  Claim C3. Whatever the window and its length, the vector the encoder returns has length
  exactly 768.
\<close>

theorem encoder_length:
  "length (create_cognitive_embeddings w) = 768"
  by (simp add: create_cognitive_embeddings_def np_array_float32_def Let_def)

text \<open>
  Claim C4 as stated, that entries 12 and 14 of the example's vector are \<open>3/7\<close> and
  \<open>0.2\<close>, fails: they are the single-precision roundings, which differ from these
  numbers and from the doubles \<open>3 / 7.0\<close> and \<open>0.2\<close> as well.
\<close>

theorem encoder_example_exact_counterexample:
  "create_cognitive_embeddings [example_reading] ! 12 \<noteq> Finite (3 / 7)
   \<and> create_cognitive_embeddings [example_reading] ! 12 \<noteq> Finite (float64 (3 / 7))
   \<and> create_cognitive_embeddings [example_reading] ! 14 \<noteq> Finite 0.2
   \<and> create_cognitive_embeddings [example_reading] ! 14 \<noteq> Finite (float64 0.2)"
  by (simp add: example_entry_12 example_entry_14 float64_three_sevenths float64_fifth)

text \<open>
  Claim C4, amended. From each reading the encoder takes exactly 15 numbers in a fixed
  order: five physiological, four cognitive, two behavioral and four environmental ones,
  the time of day divided by 24 and the day of the week by 7 in double precision. Each
  entry of the vector is the single-precision rounding of its number. For the window of
  the specification's example (one reading, at hour 12 of weekday 3 with light 0.5 and
  noise 0.2) the first 15 entries are the roundings of the five physiological, four
  cognitive and two behavioral values, then 1/2, 14380471/33554432, 1/2 and
  13421773/67108864, and entries 15 to 767 are zero.
\<close>

theorem encoder_reading_layout:
  "reading_features state =
     [get (physiological state) ''heart_rate'' 0,
      get (physiological state) ''hrv_rmssd'' 0,
      get (physiological state) ''gsr'' 0,
      get (physiological state) ''temperature'' 0,
      get (physiological state) ''respiratory_rate'' 0,
      get (cognitive state) ''attention_level'' 0,
      get (cognitive state) ''cognitive_load'' 0,
      get (cognitive state) ''focus_stability'' 0,
      get (cognitive state) ''executive_function'' 0,
      get (behavioral state) ''typing_rhythm'' 0,
      get (behavioral state) ''stress_indicators'' 0,
      float64 (get (environmental state) ''time_of_day'' 0 / 24),
      float64 (get (environmental state) ''day_of_week'' 0 / 7),
      get (environmental state) ''ambient_light'' 0,
      get (environmental state) ''noise_level'' 0]
   \<and> length (reading_features state) = 15
   \<and> create_cognitive_embeddings [state]
       = map to_float32 (reading_features state) @ replicate 753 0
   \<and> create_cognitive_embeddings
       [\<lparr>timestamp = T,
         physiological =
           [(''heart_rate'', 70), (''hrv_rmssd'', p2), (''gsr'', p3),
            (''temperature'', p4), (''respiratory_rate'', p5)],
         cognitive =
           [(''attention_level'', c1), (''cognitive_load'', c2),
            (''focus_stability'', c3), (''executive_function'', c4)],
         behavioral =
           [(''typing_rhythm'', b1), (''mouse_dynamics'', b2),
            (''task_switching'', b3), (''stress_indicators'', b4)],
         environmental =
           [(''time_of_day'', 12), (''day_of_week'', 3),
            (''ambient_light'', 0.5), (''noise_level'', float64 0.2)]\<rparr>]
     = [Finite 70, to_float32 p2, to_float32 p3, to_float32 p4, to_float32 p5,
        to_float32 c1, to_float32 c2, to_float32 c3, to_float32 c4,
        to_float32 b1, to_float32 b4,
        Finite (1 / 2), Finite (14380471 / 33554432), Finite (1 / 2),
        Finite (13421773 / 67108864)]
         @ replicate 753 0"
proof (intro conjI)
  show "reading_features state =
     [get (physiological state) ''heart_rate'' 0,
      get (physiological state) ''hrv_rmssd'' 0,
      get (physiological state) ''gsr'' 0,
      get (physiological state) ''temperature'' 0,
      get (physiological state) ''respiratory_rate'' 0,
      get (cognitive state) ''attention_level'' 0,
      get (cognitive state) ''cognitive_load'' 0,
      get (cognitive state) ''focus_stability'' 0,
      get (cognitive state) ''executive_function'' 0,
      get (behavioral state) ''typing_rhythm'' 0,
      get (behavioral state) ''stress_indicators'' 0,
      float64 (get (environmental state) ''time_of_day'' 0 / 24),
      float64 (get (environmental state) ''day_of_week'' 0 / 7),
      get (environmental state) ''ambient_light'' 0,
      get (environmental state) ''noise_level'' 0]"
    by (simp add: reading_features_def phys_features_def cog_features_def
        behav_features_def env_features_def)
  show "length (reading_features state) = 15"
    by (rule length_reading_features)
  show one: "create_cognitive_embeddings [state]
       = map to_float32 (reading_features state) @ replicate 753 0" for state
    by (simp add: encoder_closed_form length_reading_features)
  let ?ex = "\<lparr>timestamp = T,
         physiological =
           [(''heart_rate'', 70), (''hrv_rmssd'', p2), (''gsr'', p3),
            (''temperature'', p4), (''respiratory_rate'', p5)],
         cognitive =
           [(''attention_level'', c1), (''cognitive_load'', c2),
            (''focus_stability'', c3), (''executive_function'', c4)],
         behavioral =
           [(''typing_rhythm'', b1), (''mouse_dynamics'', b2),
            (''task_switching'', b3), (''stress_indicators'', b4)],
         environmental =
           [(''time_of_day'', 12), (''day_of_week'', 3),
            (''ambient_light'', 0.5), (''noise_level'', float64 0.2)]\<rparr>"
  have rf: "reading_features ?ex =
      [70, p2, p3, p4, p5, c1, c2, c3, c4, b1, b4,
       float64 (12 / 24), float64 (3 / 7), 0.5, float64 0.2]"
    by (simp add: reading_features_def phys_features_def cog_features_def
        behav_features_def env_features_def get_def)
  show "create_cognitive_embeddings [?ex]
     = [Finite 70, to_float32 p2, to_float32 p3, to_float32 p4, to_float32 p5,
        to_float32 c1, to_float32 c2, to_float32 c3, to_float32 c4,
        to_float32 b1, to_float32 b4,
        Finite (1 / 2), Finite (14380471 / 33554432), Finite (1 / 2),
        Finite (13421773 / 67108864)]
         @ replicate 753 0"
    unfolding one rf
    by (simp add: float32_seventy float32_noon float32_three_sevenths float32_half
        float32_fifth)
qed

text \<open>
  Claim C5. When the time-of-day field of a reading of the window is an hour between 0
  and 23 and its day-of-week field a weekday between 0 and 6, the two entries of the
  encoded vector that come from them, the single-precision roundings of the
  double-precision quotients by 24 and by 7, are finite and lie between 0 and 1.
\<close>

theorem encoder_clock_fields_bounded:
  assumes "j < length w"
    and "0 \<le> get (environmental (w ! j)) ''time_of_day'' 0"
    and "get (environmental (w ! j)) ''time_of_day'' 0 \<le> 23"
    and "0 \<le> get (environmental (w ! j)) ''day_of_week'' 0"
    and "get (environmental (w ! j)) ''day_of_week'' 0 \<le> 6"
  shows "(15 * j + 11 < 768 \<longrightarrow>
            create_cognitive_embeddings w ! (15 * j + 11)
              = to_float32 (float64 (get (environmental (w ! j)) ''time_of_day'' 0 / 24))
          \<and> (\<exists>v. create_cognitive_embeddings w ! (15 * j + 11) = Finite v
                 \<and> 0 \<le> v \<and> v \<le> 1))
       \<and> (15 * j + 12 < 768 \<longrightarrow>
            create_cognitive_embeddings w ! (15 * j + 12)
              = to_float32 (float64 (get (environmental (w ! j)) ''day_of_week'' 0 / 7))
          \<and> (\<exists>v. create_cognitive_embeddings w ! (15 * j + 12) = Finite v
                 \<and> 0 \<le> v \<and> v \<le> 1))"
proof -
  let ?h = "get (environmental (w ! j)) ''time_of_day'' 0"
  let ?d = "get (environmental (w ! j)) ''day_of_week'' 0"
  have t: "reading_features (w ! j) ! 11 = float64 (?h / 24)"
    by (simp add: reading_features_def phys_features_def cog_features_def
        behav_features_def env_features_def)
  have d: "reading_features (w ! j) ! 12 = float64 (?d / 7)"
    by (simp add: reading_features_def phys_features_def cog_features_def
        behav_features_def env_features_def)
  have "0 \<le> ?h / 24 \<and> ?h / 24 \<le> 1"
    using assms(2,3) by simp
  then have "0 \<le> float64 (?h / 24) \<and> float64 (?h / 24) \<le> 1"
    by (simp add: float64_unit)
  then have hb: "\<exists>v. to_float32 (float64 (?h / 24)) = Finite v \<and> 0 \<le> v \<and> v \<le> 1"
    by (simp add: to_float32_unit)
  have "0 \<le> ?d / 7 \<and> ?d / 7 \<le> 1"
    using assms(4,5) by simp
  then have "0 \<le> float64 (?d / 7) \<and> float64 (?d / 7) \<le> 1"
    by (simp add: float64_unit)
  then have db: "\<exists>v. to_float32 (float64 (?d / 7)) = Finite v \<and> 0 \<le> v \<and> v \<le> 1"
    by (simp add: to_float32_unit)
  have e11: "15 * j + 11 < 768 \<Longrightarrow>
      create_cognitive_embeddings w ! (15 * j + 11) = to_float32 (float64 (?h / 24))"
    using encoder_nth [OF assms(1), of 11] t by simp
  have e12: "15 * j + 12 < 768 \<Longrightarrow>
      create_cognitive_embeddings w ! (15 * j + 12) = to_float32 (float64 (?d / 7))"
    using encoder_nth [OF assms(1), of 12] d by simp
  show ?thesis
  proof (intro conjI impI)
    assume a: "15 * j + 11 < 768"
    show "create_cognitive_embeddings w ! (15 * j + 11) = to_float32 (float64 (?h / 24))"
      by (rule e11 [OF a])
    show "\<exists>v. create_cognitive_embeddings w ! (15 * j + 11) = Finite v \<and> 0 \<le> v \<and> v \<le> 1"
      unfolding e11 [OF a] by (rule hb)
  next
    assume a: "15 * j + 12 < 768"
    show "create_cognitive_embeddings w ! (15 * j + 12) = to_float32 (float64 (?d / 7))"
      by (rule e12 [OF a])
    show "\<exists>v. create_cognitive_embeddings w ! (15 * j + 12) = Finite v \<and> 0 \<le> v \<and> v \<le> 1"
      unfolding e12 [OF a] by (rule db)
  qed
qed

theorem encoder_clock_fields_bounded_witness:
  "(0::nat) < length [example_reading]
   \<and> 0 \<le> get (environmental ([example_reading] ! 0)) ''time_of_day'' 0
   \<and> get (environmental ([example_reading] ! 0)) ''time_of_day'' 0 \<le> 23
   \<and> 0 \<le> get (environmental ([example_reading] ! 0)) ''day_of_week'' 0
   \<and> get (environmental ([example_reading] ! 0)) ''day_of_week'' 0 \<le> 6
   \<and> 15 * 0 + 11 < (768::nat)
   \<and> 15 * 0 + 12 < (768::nat)
   \<and> (\<exists>v. create_cognitive_embeddings [example_reading] ! (15 * 0 + 11) = Finite v
          \<and> 0 \<le> v \<and> v \<le> 1)
   \<and> (\<exists>v. create_cognitive_embeddings [example_reading] ! (15 * 0 + 12) = Finite v
          \<and> 0 \<le> v \<and> v \<le> 1)
   \<and> create_cognitive_embeddings [example_reading] ! 12 = Finite (14380471 / 33554432)"
proof -
  have p1: "(0::nat) < length [example_reading]"
    by simp
  have p2: "0 \<le> get (environmental ([example_reading] ! 0)) ''time_of_day'' 0"
    by (simp add: example_reading_def get_def)
  have p3: "get (environmental ([example_reading] ! 0)) ''time_of_day'' 0 \<le> 23"
    by (simp add: example_reading_def get_def)
  have p4: "0 \<le> get (environmental ([example_reading] ! 0)) ''day_of_week'' 0"
    by (simp add: example_reading_def get_def)
  have p5: "get (environmental ([example_reading] ! 0)) ''day_of_week'' 0 \<le> 6"
    by (simp add: example_reading_def get_def)
  have a11: "15 * 0 + 11 < (768::nat)" and a12: "15 * 0 + 12 < (768::nat)"
    by simp_all
  note T = encoder_clock_fields_bounded [OF p1 p2 p3 p4 p5]
  from T a11 have b11:
    "\<exists>v. create_cognitive_embeddings [example_reading] ! (15 * 0 + 11) = Finite v
          \<and> 0 \<le> v \<and> v \<le> 1"
    by blast
  from T a12 have b12:
    "\<exists>v. create_cognitive_embeddings [example_reading] ! (15 * 0 + 12) = Finite v
          \<and> 0 \<le> v \<and> v \<le> 1"
    by blast
  from p1 p2 p3 p4 p5 a11 a12 b11 b12 example_entry_12 show ?thesis
    by blast
qed

section \<open>Properties of the aggregator\<close>

lemma store_items_upd:
  "store_items category ts d
     (self\<lparr>telemetry_streams := (telemetry_streams self)(category \<mapsto> m)\<rparr>) =
   (None, self\<lparr>telemetry_streams := (telemetry_streams self)(category \<mapsto> add_items m ts d)\<rparr>)"
proof (induction d arbitrary: m)
  case Nil
  show ?case by simp
next
  case (Cons kv d)
  obtain key v where kv: "kv = (key, v)" by (cases kv)
  show ?case
  proof (cases "m key")
    case None
    with kv Cons.IH [of m] show ?thesis by simp
  next
    case (Some xs)
    with kv Cons.IH [of "m(key \<mapsto> xs @ [(ts, v)])"] show ?thesis
      by (simp add: fun_upd_same del: fun_upd_apply)
  qed
qed

lemma store_items_present:
  assumes "telemetry_streams self category = Some m"
  shows "store_items category ts d self =
     (None, self\<lparr>telemetry_streams := (telemetry_streams self)(category \<mapsto> add_items m ts d)\<rparr>)"
proof -
  have "self = self\<lparr>telemetry_streams := (telemetry_streams self)(category \<mapsto> m)\<rparr>"
    using assms by (simp add: map_upd_triv)
  then show ?thesis
    using store_items_upd [of category ts d self m] by simp
qed

lemma add_items_absent: "m k = None \<Longrightarrow> add_items m ts d k = None"
proof (induction d arbitrary: m)
  case Nil
  then show ?case by simp
next
  case (Cons kv d)
  obtain key v where kv: "kv = (key, v)" by (cases kv)
  let ?m' = "case m key of None \<Rightarrow> m | Some xs \<Rightarrow> m(key \<mapsto> xs @ [(ts, v)])"
  have "?m' k = None"
    using Cons.prems by (auto split: option.splits)
  with Cons.IH [of ?m'] kv show ?case by simp
qed



lemma store_categories_present:
  "\<forall>c \<in> fst ` set cds. telemetry_streams self c \<noteq> None \<Longrightarrow>
   store_categories cds ts self =
     (None, self\<lparr>telemetry_streams := add_categories (telemetry_streams self) ts cds\<rparr>)"
proof (induction cds arbitrary: self)
  case Nil
  show ?case by simp
next
  case (Cons cd cds)
  obtain c d where cd: "cd = (c, d)" by (cases cd)
  from Cons.prems cd obtain m where m: "telemetry_streams self c = Some m" by auto
  let ?self' = "self\<lparr>telemetry_streams := (telemetry_streams self)(c \<mapsto> add_items m ts d)\<rparr>"
  have "\<forall>c' \<in> fst ` set cds. telemetry_streams ?self' c' \<noteq> None"
    using Cons.prems by simp
  from Cons.IH [OF this] show ?case
    using cd m by (simp add: store_items_present [OF m] del: fun_upd_apply)
qed



lemma process_and_store_present:
  assumes "\<forall>c \<in> fst ` set (category_data state). telemetry_streams self c \<noteq> None"
  shows "process_and_store state self =
     (None, self\<lparr>telemetry_streams :=
                add_categories (telemetry_streams self) (timestamp state) (category_data state),
              trace := trace self @
                [Store_call state (replicate 768 0),
                 Print (''Stored training record at '' @ shown (timestamp state))]\<rparr>)"
  by (simp add: process_and_store_def store_categories_present [OF assms]
      get_recent_states_def create_cognitive_embeddings_def np_array_float32_def store_training_data_def)





section \<open>Sampled readings and the sink\<close>

lemma store_items_unknown:
  "telemetry_streams self c = Some m \<Longrightarrow> \<forall>k \<in> fst ` set d. m k = None \<Longrightarrow>
   store_items c ts d self = (None, self)"
  by (induction d) auto

lemma init_category_keys:
  "map_option dom (telemetry_streams init ''physiological'') =
     Some {''heart_rate_variability'', ''galvanic_skin_response'', ''eye_tracking_patterns'',
           ''brain_wave_states'', ''respiratory_patterns'', ''temperature_fluctuations''}"
  "map_option dom (telemetry_streams init ''cognitive_state'') =
     Some {''attention_vectors'', ''context_switch_patterns'',
           ''decision_hesitation_markers'', ''cognitive_load_indicators'',
           ''hyperfocus_episodes'', ''executive_function_states''}"
  "map_option dom (telemetry_streams init ''behavioral_patterns'') =
     Some {''typing_dynamics'', ''code_writing_patterns'', ''problem_solving_sequences'',
           ''communication_styles'', ''stress_response_patterns'', ''creativity_bursts''}"
  "map_option dom (telemetry_streams init ''environmental_context'') =
     Some {''time_of_day_performance'', ''ambient_conditions'',
           ''social_interaction_modes'', ''task_type_preferences''}"
  by (simp_all add: init_def dom_map_of_conv_image_fst)

lemma declared_table:
  assumes "declared_as_init self"
    and "map_option dom (telemetry_streams init c) = Some K"
  obtains m where "telemetry_streams self c = Some m" and "dom m = K"
proof -
  from assms have "map_option dom (telemetry_streams self c) = Some K"
    by (simp add: declared_as_init_def)
  then show ?thesis
    using that by (cases "telemetry_streams self c") auto
qed

lemma sampled_names_dropped:
  assumes "declared_as_init self"
  shows "store_categories (category_data (collect_current_state tm r)) ts self = (None, self)"
proof -
  obtain m1 where m1: "telemetry_streams self ''physiological'' = Some m1"
    and d1: "dom m1 = {''heart_rate_variability'', ''galvanic_skin_response'',
           ''eye_tracking_patterns'', ''brain_wave_states'', ''respiratory_patterns'',
           ''temperature_fluctuations''}"
    by (rule declared_table [OF assms init_category_keys(1)])
  obtain m2 where m2: "telemetry_streams self ''cognitive_state'' = Some m2"
    and d2: "dom m2 = {''attention_vectors'', ''context_switch_patterns'',
           ''decision_hesitation_markers'', ''cognitive_load_indicators'',
           ''hyperfocus_episodes'', ''executive_function_states''}"
    by (rule declared_table [OF assms init_category_keys(2)])
  obtain m3 where m3: "telemetry_streams self ''behavioral_patterns'' = Some m3"
    and d3: "dom m3 = {''typing_dynamics'', ''code_writing_patterns'',
           ''problem_solving_sequences'', ''communication_styles'',
           ''stress_response_patterns'', ''creativity_bursts''}"
    by (rule declared_table [OF assms init_category_keys(3)])
  obtain m4 where m4: "telemetry_streams self ''environmental_context'' = Some m4"
    and d4: "dom m4 = {''time_of_day_performance'', ''ambient_conditions'',
           ''social_interaction_modes'', ''task_type_preferences''}"
    by (rule declared_table [OF assms init_category_keys(4)])
  let ?s = "collect_current_state tm r"
  have "\<forall>k \<in> fst ` set (physiological ?s). k \<notin> dom m1"
    unfolding d1 by (simp add: collect_current_state_def)
  then have u1: "\<forall>k \<in> fst ` set (physiological ?s). m1 k = None"
    by (simp add: domIff)
  have "\<forall>k \<in> fst ` set (cognitive ?s). k \<notin> dom m2"
    unfolding d2 by (simp add: collect_current_state_def)
  then have u2: "\<forall>k \<in> fst ` set (cognitive ?s). m2 k = None"
    by (simp add: domIff)
  have "\<forall>k \<in> fst ` set (behavioral ?s). k \<notin> dom m3"
    unfolding d3 by (simp add: collect_current_state_def)
  then have u3: "\<forall>k \<in> fst ` set (behavioral ?s). m3 k = None"
    by (simp add: domIff)
  have "\<forall>k \<in> fst ` set (environmental ?s). k \<notin> dom m4"
    unfolding d4 by (simp add: collect_current_state_def)
  then have u4: "\<forall>k \<in> fst ` set (environmental ?s). m4 k = None"
    by (simp add: domIff)
  show ?thesis
    by (simp add: category_data_def
        store_items_unknown [OF m1 u1] store_items_unknown [OF m2 u2]
        store_items_unknown [OF m3 u3] store_items_unknown [OF m4 u4])
qed

lemma timestamp_collect: "timestamp (collect_current_state tm r) = tm"
  by (simp add: collect_current_state_def)

lemma process_sampled:
  assumes "declared_as_init self"
  shows "process_and_store (collect_current_state tm r) self =
     (None, self\<lparr>trace := trace self @
        [Store_call (collect_current_state tm r) (replicate 768 0),
         Print (''Stored training record at '' @ shown tm)]\<rparr>)"
  by (simp add: process_and_store_def sampled_names_dropped [OF assms]
      get_recent_states_def create_cognitive_embeddings_def np_array_float32_def store_training_data_def
      timestamp_collect)

lemma asyncio_sleep_streams:
  "telemetry_streams (snd (asyncio_sleep d sg self)) = telemetry_streams self"
  by (cases sg) (simp_all add: asyncio_sleep_def stop_collection_def)

lemma try_block_streams:
  assumes "declared_as_init self"
  shows "telemetry_streams (snd (try_block t self)) = telemetry_streams self"
proof (cases "sample_rate self = 0")
  case True
  then show ?thesis
    by (simp add: try_block_def process_sampled [OF assms])
next
  case False
  then show ?thesis
    by (simp add: try_block_def process_sampled [OF assms] asyncio_sleep_streams)
qed

lemma iteration_streams:
  assumes "declared_as_init self"
  shows "telemetry_streams (snd (iteration t self)) = telemetry_streams self"
proof -
  obtain r self' where tb: "try_block t self = (r, self')"
    by (cases "try_block t self")
  with try_block_streams [OF assms, of t]
  have eq: "telemetry_streams self' = telemetry_streams self" by simp
  show ?thesis
  proof (cases r)
    case None
    with tb eq show ?thesis by (simp add: iteration_def)
  next
    case (Some e)
    with tb eq show ?thesis
      by (cases "is_Exception e") (simp_all add: iteration_def asyncio_sleep_streams)
  qed
qed

lemma declared_as_init_cong:
  "telemetry_streams self' = telemetry_streams self \<Longrightarrow>
   declared_as_init self \<Longrightarrow> declared_as_init self'"
  by (simp add: declared_as_init_def)

lemma collection_loop_streams:
  "declared_as_init self \<Longrightarrow>
   telemetry_streams (snd (collection_loop ticks self)) = telemetry_streams self"
proof (induction ticks arbitrary: self)
  case Nil
  show ?case by simp
next
  case (Cons t ticks)
  obtain r self' where it: "iteration t self = (r, self')" by (cases "iteration t self")
  with iteration_streams [OF Cons.prems, of t]
  have eq: "telemetry_streams self' = telemetry_streams self" by simp
  from eq Cons.prems have "declared_as_init self'" by (rule declared_as_init_cong)
  from Cons.IH [OF this] eq it show ?case
    by (simp split: option.splits)
qed

lemma init_sequences_empty:
  "telemetry_streams init c = Some m \<Longrightarrow> m k = Some xs \<Longrightarrow> xs = []"
  by (auto simp: init_def split: if_splits)

text \<open>
  Claim C7. None of the metric names that \<open>collect_current_state\<close> samples is declared
  in \<open>__init__\<close>. So for a reading it produces, \<open>process_and_store\<close> leaves
  \<open>telemetry_streams\<close> unchanged in every collector with the declared names of
  \<open>__init__\<close>; and after a run of the loop over any ticks from the initial collector the
  table is the initial one and every sequence in it is empty.
\<close>

theorem sampled_readings_never_stored:
  "(declared_as_init self \<longrightarrow>
      telemetry_streams (snd (process_and_store (collect_current_state tm r) self))
        = telemetry_streams self)
   \<and> telemetry_streams (snd (start_continuous_collection ticks init)) = telemetry_streams init
   \<and> (\<forall>c m k xs.
        telemetry_streams (snd (start_continuous_collection ticks init)) c = Some m
          \<longrightarrow> m k = Some xs \<longrightarrow> xs = [])"
proof -
  have a: "declared_as_init self \<Longrightarrow>
      telemetry_streams (snd (process_and_store (collect_current_state tm r) self))
        = telemetry_streams self"
    by (simp add: process_sampled)
  have "declared_as_init (init\<lparr>collection_active := True,
             trace := trace init @
               [Print ''Starting continuous biometric collection for Nexis LLM training...'']\<rparr>)"
    by (simp add: declared_as_init_def)
  from collection_loop_streams [OF this, of ticks]
  have b: "telemetry_streams (snd (start_continuous_collection ticks init))
             = telemetry_streams init"
    by (simp add: start_continuous_collection_def)
  from a b init_sequences_empty show ?thesis by auto
qed


theorem sampled_readings_never_stored_witness:
  "declared_as_init init
   \<and> telemetry_streams
        (snd (process_and_store (collect_current_state example_clock example_draws) init))
       = telemetry_streams init
   \<and> (\<exists>m xs. telemetry_streams
          (snd (start_continuous_collection [quiet_tick, quiet_tick] init)) ''physiological''
            = Some m
        \<and> m ''brain_wave_states'' = Some xs \<and> xs = [])"
proof -
  note T = sampled_readings_never_stored
    [of init example_clock example_draws "[quiet_tick, quiet_tick]"]
  have d: "declared_as_init init"
    by (simp add: declared_as_init_def)
  with T have one: "telemetry_streams
        (snd (process_and_store (collect_current_state example_clock example_draws) init))
       = telemetry_streams init"
    by blast
  from T have same: "telemetry_streams
      (snd (start_continuous_collection [quiet_tick, quiet_tick] init)) = telemetry_streams init"
    by blast
  obtain m where m: "telemetry_streams
      (snd (start_continuous_collection [quiet_tick, quiet_tick] init)) ''physiological'' = Some m"
    unfolding same by (simp add: init_def)
  obtain xs where xs: "m ''brain_wave_states'' = Some xs"
    using m unfolding same by (auto simp: init_def)
  from T m xs have "xs = []" by blast
  with d one m xs show ?thesis by blast
qed

text \<open>
  Claim C8. \<open>_get_recent_states\<close> returns the empty list for every argument and every
  collector. So \<open>process_and_store\<close> enters the persistence stub with the vector of 768
  zeros whenever it gets there, and it gets there, without an exception, whenever the
  categories of the reading are present in the log.
\<close>

theorem embedding_of_empty_window_stored:
  "get_recent_states self window_minutes = []
   \<and> create_cognitive_embeddings (get_recent_states self window_minutes) = replicate 768 0
   \<and> process_and_store state self =
       (case store_categories (category_data state) (timestamp state) self of
          (Some e, self') \<Rightarrow> (Some e, self')
        | (None, self') \<Rightarrow> store_training_data state (replicate 768 0) self')
   \<and> ((\<forall>c \<in> fst ` set (category_data state). telemetry_streams self c \<noteq> None) \<longrightarrow>
         fst (process_and_store state self) = None
       \<and> trace (snd (process_and_store state self)) =
           trace self @
             [Store_call state (replicate 768 0),
              Print (''Stored training record at '' @ shown (timestamp state))])"
proof (intro conjI impI)
  show "get_recent_states self window_minutes = []"
    by (simp add: get_recent_states_def)
  show "create_cognitive_embeddings (get_recent_states self window_minutes) = replicate 768 0"
    by (simp add: get_recent_states_def create_cognitive_embeddings_def np_array_float32_def)
  show "process_and_store state self =
       (case store_categories (category_data state) (timestamp state) self of
          (Some e, self') \<Rightarrow> (Some e, self')
        | (None, self') \<Rightarrow> store_training_data state (replicate 768 0) self')"
    by (simp add: process_and_store_def get_recent_states_def create_cognitive_embeddings_def np_array_float32_def
        split: prod.splits option.splits)
next
  assume cats: "\<forall>c \<in> fst ` set (category_data state). telemetry_streams self c \<noteq> None"
  show "fst (process_and_store state self) = None"
    by (simp add: process_and_store_present [OF cats])
  show "trace (snd (process_and_store state self)) =
           trace self @
             [Store_call state (replicate 768 0),
              Print (''Stored training record at '' @ shown (timestamp state))]"
    by (simp add: process_and_store_present [OF cats])
qed

theorem embedding_of_empty_window_stored_witness:
  "telemetry_streams init ''physiological'' \<noteq> None
   \<and> telemetry_streams init ''cognitive_state'' \<noteq> None
   \<and> telemetry_streams init ''behavioral_patterns'' \<noteq> None
   \<and> telemetry_streams init ''environmental_context'' \<noteq> None
   \<and> get_recent_states init 5 = []
   \<and> fst (process_and_store example_reading init) = None
   \<and> trace (snd (process_and_store example_reading init)) =
        [Store_call example_reading (replicate 768 0),
         Print ''Stored training record at 2024-01-04 12:00:00'']"
proof -
  have cats: "\<forall>c \<in> fst ` set (category_data example_reading). telemetry_streams init c \<noteq> None"
    by (simp add: category_data_def init_def)
  have tr: "trace init = []"
    by (simp add: init_def)
  have sh: "shown (timestamp example_reading) = ''2024-01-04 12:00:00''"
    by (simp add: example_reading_def)
  note T = embedding_of_empty_window_stored [of init 5 example_reading]
  from T have a: "get_recent_states init 5 = []"
    by blast
  from T cats have b: "fst (process_and_store example_reading init) = None"
    by blast
  from T cats have "trace (snd (process_and_store example_reading init)) =
      trace init @
        [Store_call example_reading (replicate 768 0),
         Print (''Stored training record at '' @ shown (timestamp example_reading))]"
    by blast
  then have c: "trace (snd (process_and_store example_reading init)) =
        [Store_call example_reading (replicate 768 0),
         Print ''Stored training record at 2024-01-04 12:00:00'']"
    unfolding tr sh by simp
  have present: "telemetry_streams init ''physiological'' \<noteq> None
     \<and> telemetry_streams init ''cognitive_state'' \<noteq> None
     \<and> telemetry_streams init ''behavioral_patterns'' \<noteq> None
     \<and> telemetry_streams init ''environmental_context'' \<noteq> None"
    using cats by (simp add: category_data_def)
  from present a b c show ?thesis
    by blast
qed

section \<open>Properties of the collection loop\<close>

lemma store_items_frame:
  "store_items c ts d self = (r, self') \<Longrightarrow>
     collection_active self' = collection_active self
   \<and> sample_rate self' = sample_rate self
   \<and> trace self' = trace self
   \<and> (r = None \<or> r = Some (KeyError c))"
proof (induction d arbitrary: self)
  case Nil
  then show ?case by auto
next
  case (Cons kv d)
  obtain key v where kv: "kv = (key, v)" by (cases kv)
  show ?case
  proof (cases "telemetry_streams self c")
    case None
    with Cons.prems kv show ?thesis by auto
  next
    case (Some m)
    show ?thesis
    proof (cases "m key")
      case None
      with Cons.prems kv Some have "store_items c ts d self = (r, self')" by simp
      from Cons.IH [OF this] show ?thesis .
    next
      case (Some xs)
      let ?s = "self\<lparr>telemetry_streams :=
                    (telemetry_streams self)(c \<mapsto> m(key \<mapsto> xs @ [(ts, v)]))\<rparr>"
      from Cons.prems kv Some \<open>telemetry_streams self c = Some m\<close>
      have "store_items c ts d ?s = (r, self')" by simp
      from Cons.IH [OF this] show ?thesis by simp
    qed
  qed
qed

lemma store_categories_frame:
  "store_categories cds ts self = (r, self') \<Longrightarrow>
     collection_active self' = collection_active self
   \<and> sample_rate self' = sample_rate self
   \<and> trace self' = trace self
   \<and> (r = None \<or> (\<exists>c. r = Some (KeyError c)))"
proof (induction cds arbitrary: self)
  case Nil
  then show ?case by auto
next
  case (Cons cd cds)
  obtain c d where cd: "cd = (c, d)" by (cases cd)
  obtain r1 s1 where si: "store_items c ts d self = (r1, s1)"
    by (cases "store_items c ts d self")
  note f1 = store_items_frame [OF si]
  show ?case
  proof (cases r1)
    case None
    with Cons.prems cd si have "store_categories cds ts s1 = (r, self')" by simp
    from Cons.IH [OF this] f1 show ?thesis by simp
  next
    case (Some e)
    with Cons.prems cd si have "r = Some e" "self' = s1" by simp_all
    with f1 Some show ?thesis by auto
  qed
qed

lemma process_and_store_frame:
  assumes "process_and_store state self = (r, self')"
  shows "collection_active self' = collection_active self
   \<and> sample_rate self' = sample_rate self
   \<and> (r = None \<or> (\<exists>c. r = Some (KeyError c)))"
proof -
  obtain r1 s1 where sc: "store_categories (category_data state) (timestamp state) self = (r1, s1)"
    by (cases "store_categories (category_data state) (timestamp state) self")
  note f = store_categories_frame [OF sc]
  show ?thesis
  proof (cases r1)
    case None
    with assms sc have "r = None" "self' = s1\<lparr>trace := trace s1 @
        [Store_call state (create_cognitive_embeddings (get_recent_states s1 5)),
         Print (''Stored training record at '' @ shown (timestamp state))]\<rparr>"
      by (simp_all add: process_and_store_def store_training_data_def Let_def)
    with f show ?thesis by simp
  next
    case (Some e)
    with assms sc have "r = Some e" "self' = s1"
      by (simp_all add: process_and_store_def)
    with f Some show ?thesis by auto
  qed
qed

text \<open>
  In the \<open>try\<close> block an exception raised before the sleep derives from \<open>Exception\<close>
  and leaves the flag as it was; \<open>KeyboardInterrupt\<close> comes from the sleep only.
\<close>

lemma asyncio_sleep_cases:
  "asyncio_sleep d sg self = (r, self') \<Longrightarrow>
     (sg = Quiet \<and> r = None \<and> collection_active self' = collection_active self)
   \<or> (sg = Stop_called \<and> r = None \<and> \<not> collection_active self')
   \<or> (sg = Interrupt \<and> r = Some KeyboardInterrupt
        \<and> collection_active self' = collection_active self)"
  by (cases sg) (auto simp: asyncio_sleep_def stop_collection_def)

lemma try_block_cases:
  assumes "try_block t self = (r, self')"
  shows "(r = None \<and> during_sleep t = Quiet \<and> collection_active self' = collection_active self)
   \<or> (r = None \<and> during_sleep t = Stop_called \<and> \<not> collection_active self')
   \<or> (r = Some KeyboardInterrupt \<and> during_sleep t = Interrupt
        \<and> collection_active self' = collection_active self)
   \<or> ((\<exists>e. r = Some e \<and> is_Exception e)
        \<and> collection_active self' = collection_active self)"
proof -
  let ?state = "collect_current_state (now t) (rnd t)"
  obtain r1 s1 where ps: "process_and_store ?state self = (r1, s1)"
    by (cases "process_and_store ?state self")
  note f = process_and_store_frame [OF ps]
  show ?thesis
  proof (cases r1)
    case (Some e)
    with assms ps have "r = Some e" "self' = s1"
      by (simp_all add: try_block_def)
    with f Some show ?thesis by auto
  next
    case None
    show ?thesis
    proof (cases "sample_rate s1 = 0")
      case True
      with assms ps None have "r = Some ZeroDivisionError" "self' = s1"
        by (simp_all add: try_block_def)
      with f show ?thesis by simp
    next
      case False
      with assms ps None
      have "asyncio_sleep (1 / sample_rate s1) (during_sleep t) s1 = (r, self')"
        by (simp add: try_block_def)
      from asyncio_sleep_cases [OF this] f show ?thesis by auto
    qed
  qed
qed

lemma iteration_cases:
  assumes "iteration t self = (r, self')"
  shows "(r = None \<and> during_sleep t = Quiet \<and> collection_active self' = collection_active self)
   \<or> (r = None \<and> during_sleep t = Stop_called \<and> \<not> collection_active self')
   \<or> (r = Some KeyboardInterrupt \<and> during_sleep t = Interrupt)"
proof -
  obtain r1 s1 where tb: "try_block t self = (r1, s1)"
    by (cases "try_block t self")
  note c = try_block_cases [OF tb]
  show ?thesis
  proof (cases r1)
    case None
    with assms tb have "r = None" "self' = s1" by (simp_all add: iteration_def)
    with c None show ?thesis by auto
  next
    case (Some e)
    show ?thesis
    proof (cases "is_Exception e")
      case False
      with assms tb Some have "r = Some e" "self' = s1" by (simp_all add: iteration_def)
      with c Some False show ?thesis by auto
    next
      case True
      with assms tb Some have "asyncio_sleep 1 (during_sleep t)
          (s1\<lparr>trace := trace s1 @ [Print (''Collection error: '' @ exn_str e)]\<rparr>) = (r, self')"
        by (simp add: iteration_def)
      from asyncio_sleep_cases [OF this] c Some True show ?thesis by auto
    qed
  qed
qed

lemma loop_aborted:
  "fst (collection_loop ticks self) = Aborted e \<Longrightarrow>
     e = KeyboardInterrupt \<and> (\<exists>t \<in> set ticks. during_sleep t = Interrupt)"
proof (induction ticks arbitrary: self)
  case Nil
  then show ?case by (simp split: if_splits)
next
  case (Cons t ticks)
  obtain r s1 where it: "iteration t self = (r, s1)" by (cases "iteration t self")
  note c = iteration_cases [OF it]
  from Cons.prems have act: "collection_active self" by (auto split: if_splits)
  show ?case
  proof (cases r)
    case None
    with Cons.prems it act have "fst (collection_loop ticks s1) = Aborted e" by simp
    from Cons.IH [OF this] show ?thesis by auto
  next
    case (Some e')
    with Cons.prems it act have "e' = e" by simp
    with c Some show ?thesis by auto
  qed
qed

lemma loop_stopped:
  "fst (collection_loop ticks self) = Stopped \<Longrightarrow>
     \<not> collection_active self \<or> (\<exists>t \<in> set ticks. during_sleep t = Stop_called)"
proof (induction ticks arbitrary: self)
  case Nil
  then show ?case by (simp split: if_splits)
next
  case (Cons t ticks)
  show ?case
  proof (cases "collection_active self")
    case False
    then show ?thesis by simp
  next
    case act: True
    obtain r s1 where it: "iteration t self = (r, s1)" by (cases "iteration t self")
    note c = iteration_cases [OF it]
    show ?thesis
    proof (cases r)
      case None
      with Cons.prems it act have "fst (collection_loop ticks s1) = Stopped" by simp
      from Cons.IH [OF this] c None act show ?thesis by auto
    next
      case (Some e')
      with Cons.prems it act show ?thesis by simp
    qed
  qed
qed

lemma loop_pending:
  assumes "collection_active self" and "\<forall>t \<in> set ticks. during_sleep t = Quiet"
  shows "fst (collection_loop ticks self) = Pending"
proof (cases "fst (collection_loop ticks self)")
  case Stopped
  from loop_stopped [OF this] assms show ?thesis by auto
next
  case (Aborted e)
  from loop_aborted [OF this] assms show ?thesis by auto
next
  case Pending
  then show ?thesis .
qed


text \<open>
  Claim C9. When a step of a pass of the loop raises an exception (one deriving from
  \<open>Exception\<close>), the handler at the loop boundary prints an error line and waits one
  second, and the loop goes on with the next pass. A run never ends because of such an
  exception: it ends by an exception only when an interruption arrived, and it ends
  normally only when the flag was cleared; with neither, every tick is consumed and the
  loop is still running.
\<close>

theorem loop_survives_exceptions:
  "(try_block t self = (Some e, self') \<longrightarrow> is_Exception e \<longrightarrow>
       iteration t self =
         asyncio_sleep 1 (during_sleep t)
           (self'\<lparr>trace := trace self' @ [Print (''Collection error: '' @ exn_str e)]\<rparr>)
     \<and> (during_sleep t = Quiet \<longrightarrow> collection_active self \<longrightarrow>
          collection_active self'
        \<and> collection_loop (t # rest) self =
            collection_loop rest
              (self'\<lparr>trace := trace self' @
                 [Print (''Collection error: '' @ exn_str e), Sleep 1]\<rparr>)))
   \<and> (fst (collection_loop ticks self) = Aborted e' \<longrightarrow>
         e' = KeyboardInterrupt \<and> (\<exists>t \<in> set ticks. during_sleep t = Interrupt))
   \<and> (fst (collection_loop ticks self) = Stopped \<longrightarrow>
         \<not> collection_active self \<or> (\<exists>t \<in> set ticks. during_sleep t = Stop_called))
   \<and> (collection_active self \<longrightarrow> (\<forall>t \<in> set ticks. during_sleep t = Quiet) \<longrightarrow>
         fst (collection_loop ticks self) = Pending)"
proof (intro conjI impI)
  assume tb: "try_block t self = (Some e, self')" and ex: "is_Exception e"
  show it: "iteration t self =
         asyncio_sleep 1 (during_sleep t)
           (self'\<lparr>trace := trace self' @ [Print (''Collection error: '' @ exn_str e)]\<rparr>)"
    using tb ex by (simp add: iteration_def)
  assume q: "during_sleep t = Quiet" and act: "collection_active self"
  from try_block_cases [OF tb] ex show act': "collection_active self'"
    using act by auto
  have "iteration t self = (None, self'\<lparr>trace := trace self' @
                 [Print (''Collection error: '' @ exn_str e), Sleep 1]\<rparr>)"
    unfolding it by (simp add: asyncio_sleep_def q)
  with act show "collection_loop (t # rest) self =
            collection_loop rest
              (self'\<lparr>trace := trace self' @
                 [Print (''Collection error: '' @ exn_str e), Sleep 1]\<rparr>)"
    by simp
next
  assume "fst (collection_loop ticks self) = Aborted e'"
  from loop_aborted [OF this] show "e' = KeyboardInterrupt"
    and "\<exists>t \<in> set ticks. during_sleep t = Interrupt" by blast+
next
  assume "fst (collection_loop ticks self) = Stopped"
  from loop_stopped [OF this]
  show "\<not> collection_active self \<or> (\<exists>t \<in> set ticks. during_sleep t = Stop_called)" .
next
  assume "collection_active self" and "\<forall>t \<in> set ticks. during_sleep t = Quiet"
  then show "fst (collection_loop ticks self) = Pending" by (rule loop_pending)
qed

lemma iteration_stop_in_flight:
  assumes "during_sleep t = Stop_called"
  shows "\<exists>self'. iteration (t\<lparr>during_sleep := Quiet\<rparr>) self = (None, self')
           \<and> iteration t self = (None, stop_collection self')"
proof -
  let ?state = "collect_current_state (now t) (rnd t)"
  obtain r1 s1 where ps: "process_and_store ?state self = (r1, s1)"
    by (cases "process_and_store ?state self")
  note f = process_and_store_frame [OF ps]
  show ?thesis
  proof (cases r1)
    case None
    show ?thesis
    proof (cases "sample_rate s1 = 0")
      case True
      with ps None assms show ?thesis
        by (simp add: iteration_def try_block_def asyncio_sleep_def)
    next
      case False
      with ps None assms show ?thesis
        by (simp add: iteration_def try_block_def asyncio_sleep_def)
    qed
  next
    case (Some e)
    with f have "is_Exception e" by auto
    with ps Some assms show ?thesis
      by (simp add: iteration_def try_block_def asyncio_sleep_def)
  qed
qed

lemma loop_inactive: "\<not> collection_active self \<Longrightarrow> collection_loop ticks self = (Stopped, self)"
  by (cases ticks) simp_all

text \<open>
  Claim C10. The loop tests \<open>collection_active\<close> before each pass and makes the pass if
  and only if the flag is set. After \<open>stop_collection\<close> no further pass begins, whatever
  ticks remain; a pass during which \<open>stop_collection\<close> is called still has all the
  effects of an undisturbed pass, and nothing runs after it.
\<close>

theorem loop_obeys_flag:
  "(\<not> collection_active self \<longrightarrow> collection_loop ticks self = (Stopped, self))
   \<and> (collection_active self \<longrightarrow>
        collection_loop (t # rest) self =
          (case iteration t self of
             (None, self') \<Rightarrow> collection_loop rest self'
           | (Some e, self') \<Rightarrow> (Aborted e, self')))
   \<and> collection_loop ticks (stop_collection self) = (Stopped, stop_collection self)
   \<and> (during_sleep t = Stop_called \<longrightarrow>
        (\<exists>self'. iteration (t\<lparr>during_sleep := Quiet\<rparr>) self = (None, self')
           \<and> iteration t self = (None, stop_collection self')
           \<and> (collection_active self \<longrightarrow>
                collection_loop (t # rest) self = (Stopped, stop_collection self'))))"
proof (intro conjI impI)
  assume "\<not> collection_active self"
  then show "collection_loop ticks self = (Stopped, self)" by (rule loop_inactive)
next
  assume "collection_active self"
  then show "collection_loop (t # rest) self =
          (case iteration t self of
             (None, self') \<Rightarrow> collection_loop rest self'
           | (Some e, self') \<Rightarrow> (Aborted e, self'))"
    by simp
next
  have "\<not> collection_active (stop_collection self)"
    by (simp add: stop_collection_def)
  then show "collection_loop ticks (stop_collection self) = (Stopped, stop_collection self)"
    by (rule loop_inactive)
next
  assume "during_sleep t = Stop_called"
  from iteration_stop_in_flight [OF this, of self] obtain self' where
    q: "iteration (t\<lparr>during_sleep := Quiet\<rparr>) self = (None, self')"
    and s: "iteration t self = (None, stop_collection self')"
    by blast
  have "\<not> collection_active (stop_collection self')"
    by (simp add: stop_collection_def)
  then have "collection_loop rest (stop_collection self') = (Stopped, stop_collection self')"
    by (rule loop_inactive)
  with s have "collection_active self \<longrightarrow>
      collection_loop (t # rest) self = (Stopped, stop_collection self')"
    by simp
  with q s show "\<exists>self'. iteration (t\<lparr>during_sleep := Quiet\<rparr>) self = (None, self')
           \<and> iteration t self = (None, stop_collection self')
           \<and> (collection_active self \<longrightarrow>
                collection_loop (t # rest) self = (Stopped, stop_collection self'))"
    by blast
qed


lemma uncategorised_try_block:
  "try_block t uncategorised_collector =
     (Some (KeyError ''physiological''), uncategorised_collector)"
  by (simp add: try_block_def process_and_store_def category_data_def
      collect_current_state_def uncategorised_collector_def)

theorem loop_survives_exceptions_witness:
  "try_block quiet_tick uncategorised_collector =
     (Some (KeyError ''physiological''), uncategorised_collector)
   \<and> is_Exception (KeyError ''physiological'')
   \<and> during_sleep quiet_tick = Quiet
   \<and> collection_active uncategorised_collector
   \<and> iteration quiet_tick uncategorised_collector =
       (None, uncategorised_collector\<lparr>trace :=
          [Print (''Collection error: '' @ exn_str (KeyError ''physiological'')), Sleep 1]\<rparr>)
   \<and> fst (collection_loop [quiet_tick, quiet_tick] uncategorised_collector) = Pending
   \<and> fst (collection_loop [interrupt_tick] uncategorised_collector) = Aborted KeyboardInterrupt
   \<and> (\<exists>t \<in> set [interrupt_tick]. during_sleep t = Interrupt)
   \<and> fst (collection_loop [stop_tick, quiet_tick] uncategorised_collector) = Stopped
   \<and> (\<exists>t \<in> set [stop_tick, quiet_tick]. during_sleep t = Stop_called)"
proof -
  let ?u = "uncategorised_collector"
  let ?e = "KeyError ''physiological''"
  have tb: "try_block quiet_tick ?u = (Some ?e, ?u)"
    by (rule uncategorised_try_block)
  have ex: "is_Exception ?e" by simp
  have q: "during_sleep quiet_tick = Quiet" by (simp add: quiet_tick_def)
  have act: "collection_active ?u" by (simp add: uncategorised_collector_def)
  have tr: "trace ?u = []" by (simp add: uncategorised_collector_def init_def)
  have allq: "\<forall>t \<in> set [quiet_tick, quiet_tick]. during_sleep t = Quiet"
    using q by simp
  note T = loop_survives_exceptions
    [of quiet_tick ?u ?e ?u "[quiet_tick]" "[quiet_tick, quiet_tick]"]
  from T tb ex have "iteration quiet_tick ?u =
      asyncio_sleep 1 (during_sleep quiet_tick)
        (?u\<lparr>trace := trace ?u @ [Print (''Collection error: '' @ exn_str ?e)]\<rparr>)"
    by blast
  then have it: "iteration quiet_tick ?u =
       (None, ?u\<lparr>trace := [Print (''Collection error: '' @ exn_str ?e), Sleep 1]\<rparr>)"
    unfolding q tr by (simp add: asyncio_sleep_def)
  from T act allq have pend: "fst (collection_loop [quiet_tick, quiet_tick] ?u) = Pending"
    by blast
  have ab: "fst (collection_loop [interrupt_tick] ?u) = Aborted KeyboardInterrupt"
    by (simp add: act iteration_def uncategorised_try_block asyncio_sleep_def
        interrupt_tick_def)
  from loop_survives_exceptions
    [of quiet_tick ?u ?e ?u "[]" "[interrupt_tick]" KeyboardInterrupt] ab
  have ab': "\<exists>t \<in> set [interrupt_tick]. during_sleep t = Interrupt"
    by blast
  have st: "fst (collection_loop [stop_tick, quiet_tick] ?u) = Stopped"
    by (simp add: act iteration_def uncategorised_try_block asyncio_sleep_def
        stop_tick_def stop_collection_def)
  from loop_survives_exceptions
    [of quiet_tick ?u ?e ?u "[]" "[stop_tick, quiet_tick]"] st act
  have st': "\<exists>t \<in> set [stop_tick, quiet_tick]. during_sleep t = Stop_called"
    by blast
  from tb ex q act it pend ab ab' st st' show ?thesis
    by blast
qed

theorem loop_obeys_flag_witness:
  "\<not> collection_active init
   \<and> collection_loop [quiet_tick] init = (Stopped, init)
   \<and> collection_active running_collector
   \<and> collection_loop [quiet_tick] (stop_collection running_collector)
       = (Stopped, stop_collection running_collector)
   \<and> during_sleep stop_tick = Stop_called
   \<and> (\<exists>self'. iteration (stop_tick\<lparr>during_sleep := Quiet\<rparr>) running_collector = (None, self')
         \<and> iteration stop_tick running_collector = (None, stop_collection self')
         \<and> collection_loop [stop_tick, quiet_tick] running_collector
             = (Stopped, stop_collection self'))"
proof -
  have off: "\<not> collection_active init" by (simp add: init_def)
  have on: "collection_active running_collector" by (simp add: running_collector_def)
  have sc: "during_sleep stop_tick = Stop_called" by (simp add: stop_tick_def)
  from loop_obeys_flag [of init "[quiet_tick]" quiet_tick "[]"] off
  have a: "collection_loop [quiet_tick] init = (Stopped, init)"
    by blast
  note T = loop_obeys_flag [of running_collector "[quiet_tick]" stop_tick "[quiet_tick]"]
  from T have b: "collection_loop [quiet_tick] (stop_collection running_collector)
       = (Stopped, stop_collection running_collector)"
    by blast
  from T sc on have c: "\<exists>self'.
        iteration (stop_tick\<lparr>during_sleep := Quiet\<rparr>) running_collector = (None, self')
         \<and> iteration stop_tick running_collector = (None, stop_collection self')
         \<and> collection_loop [stop_tick, quiet_tick] running_collector
             = (Stopped, stop_collection self')"
    by blast
  from off a on b sc c show ?thesis
    by blast
qed

end
